theory Spec2Isabelle
  imports Main
begin

section \<open>Runtime values\<close>

text \<open>
  A slot that TypeScript types as \<open>T | undefined\<close>. At run time a caller that casts
  around the type checker can also store \<open>null\<close> there, so the three cases are kept
  apart: \<open>x === undefined\<close> holds for \<open>Undefined\<close> only, while the truthiness test
  \<open>if (x)\<close> on an object slot fails for \<open>Undefined\<close> and for \<open>Null\<close> alike.
\<close>

datatype 'a js = Undefined | Null | Defined 'a

text \<open>An \<open>Error\<close> object: \<open>new Error(msg)\<close> has the name \<open>Error\<close> and the given message.\<close>

record js_Error =
  name :: string
  message :: string

definition new_Error :: "string \<Rightarrow> js_Error" where
  "new_Error msg = \<lparr>name = ''Error'', message = msg\<rparr>"

text \<open>
  Code that may throw and may have side effects: it runs in a world \<open>'w\<close>, and either
  throws (\<open>Inl\<close>) or returns (\<open>Inr\<close>), leaving a new world. \<open>returns\<close> is a plain
  \<open>return\<close>; \<open>and_then\<close> runs a second computation on the value the first one returned
  and skips it when the first one threw.
\<close>

type_synonym ('x, 'a, 'w) effect = "'w \<Rightarrow> ('x + 'a) \<times> 'w"

definition returns :: "'a \<Rightarrow> ('x, 'a, 'w) effect" where
  "returns a w = (Inr a, w)"

definition and_then :: "('x, 'a, 'w) effect \<Rightarrow> ('a \<Rightarrow> ('x, 'b, 'w) effect) \<Rightarrow> ('x, 'b, 'w) effect" where
  "and_then c k w = (case c w of (Inl thrown, w') \<Rightarrow> (Inl thrown, w') | (Inr a, w') \<Rightarrow> k a w')"

section \<open>The outcome wrapper: class \<open>Result\<close> (types.ts)\<close>

text \<open>
  \<open>private constructor(public readonly value: TValue | undefined,
                       public readonly error: Error | undefined)\<close>
\<close>

record 'v Result =
  "value" :: "'v js"
  error :: "js_Error js"

text \<open>\<open>static success(value?)\<close>: an omitted argument is \<open>Undefined\<close>.\<close>

definition success :: "'v js \<Rightarrow> 'v Result" where
  "success v = \<lparr>value = v, error = Undefined\<rparr>"

text \<open>\<open>static failure(error)\<close>: the argument is stored as it comes, with no check.\<close>

definition failure :: "js_Error js \<Rightarrow> 'v Result" where
  "failure e = \<lparr>value = Undefined, error = e\<rparr>"

text \<open>\<open>isSuccess()\<close>: \<open>return this.error === undefined\<close>.\<close>

definition isSuccess :: "'v Result \<Rightarrow> bool" where
  "isSuccess r = (error r = Undefined)"

text \<open>\<open>getValue()\<close>: \<open>return this.value\<close>.\<close>

definition getValue :: "'v Result \<Rightarrow> 'v js" where
  "getValue r = value r"

text \<open>
  \<open>unwrap()\<close>: \<open>if (this.error) throw this.error; return this.value!\<close>. The test is
  truthiness: an \<open>Error\<close> object passes it, \<open>undefined\<close> and \<open>null\<close> do not. The
  non-null assertion \<open>!\<close> is erased at run time.
\<close>

definition unwrap :: "'v Result \<Rightarrow> js_Error + 'v js" where
  "unwrap r =
     (case error r of
        Defined e \<Rightarrow> Inl e
      | Undefined \<Rightarrow> Inr (value r)
      | Null \<Rightarrow> Inr (value r))"

text \<open>
  \<open>map(fn)\<close>: \<open>if (this.isSuccess()) return Result.success(fn(this.value!));
  return Result.failure(this.error!)\<close>. The transform is caller code: it may throw
  and may have side effects.
\<close>

definition Result_map :: "('v js \<Rightarrow> ('x, 'u js, 'w) effect) \<Rightarrow> 'v Result \<Rightarrow> ('x, 'u Result, 'w) effect" where
  "Result_map fn r =
     (if isSuccess r then and_then (fn (value r)) (\<lambda>out. returns (success out))
      else returns (failure (error r)))"

section \<open>Requests and handlers\<close>

text \<open>
  What \<open>message.constructor\<close> finds through the prototype chain: the class, for an
  instance made with \<open>new\<close>; the built-in \<open>Object\<close>, for an object literal. The
  \<open>name\<close> of a class is the identifier it was declared with, the \<open>name\<close> of
  \<open>Object\<close> is the string \<open>Object\<close>.
\<close>

datatype js_constructor = Class string | Object

fun constructor_name :: "js_constructor \<Rightarrow> string" where
  "constructor_name (Class n) = n"
| "constructor_name Object = ''Object''"

text \<open>
  The fields \<open>Command\<close> and \<open>Query\<close> share. \<open>kind\<close> is typed as one of two string
  literals, but the dispatcher tests it at run time, so the model lets it hold any
  string or be missing. \<open>ident\<close> is the field \<open>id\<close>, \<open>timestamp\<close> a \<open>Date\<close> in
  milliseconds.
\<close>

record Request =
  kind :: "string js"
  ident :: string
  timestamp :: int
  "constructor" :: js_constructor

record 'p Command = Request +
  payload :: 'p

record 'p Query = Request +
  params :: 'p

text \<open>
  The constructors of the abstract classes \<open>BaseCommand\<close> and \<open>BaseQuery\<close>, as
  run by \<open>new C(..)\<close> for a class \<open>C\<close> that extends them: \<open>kind\<close> is fixed,
  \<open>id\<close> is built from the prefix and the printed values of \<open>Date.now()\<close> and
  \<open>Math.random()\<close> (taken as the strings \<open>now\<close> and \<open>rnd\<close>), \<open>timestamp\<close> is
  the clock (\<open>ts\<close>), and the object's constructor is \<open>C\<close>. The field \<open>_result\<close> of
  a query only carries a type and holds nothing at run time.
\<close>

definition BaseCommand :: "string \<Rightarrow> string \<Rightarrow> string \<Rightarrow> int \<Rightarrow> 'p \<Rightarrow> 'p Command" where
  "BaseCommand C now rnd ts p =
     \<lparr>kind = Defined ''command'', ident = ''cmd-'' @ now @ ''-'' @ rnd, timestamp = ts,
      constructor = Class C, payload = p\<rparr>"

definition BaseQuery :: "string \<Rightarrow> string \<Rightarrow> string \<Rightarrow> int \<Rightarrow> 'p \<Rightarrow> 'p Query" where
  "BaseQuery C now rnd ts p =
     \<lparr>kind = Defined ''query'', ident = ''query-'' @ now @ ''-'' @ rnd, timestamp = ts,
      constructor = Class C, params = p\<rparr>"

text \<open>
  A promise as its awaiting caller sees it: fulfilled with a value, rejected with what
  was thrown, or never settled.
\<close>

datatype ('x, 'a) promise = Fulfilled 'a | Rejected 'x | Pending

text \<open>
  \<open>CommandHandler\<close> and \<open>QueryHandler\<close> have the same shape: one method
  \<open>handle(request): Promise<Result<..>>\<close>. The registries store them at type \<open>any\<close>,
  so a handler takes any request object (\<open>'m\<close> stands for the fields beyond the
  shared ones). A handler may have side effects on the world \<open>'w\<close>.
\<close>

record ('m, 'v, 'x, 'w) Handler =
  handle :: "'m Request_scheme \<Rightarrow> 'w \<Rightarrow> ('x, 'v Result) promise \<times> 'w"

type_synonym ('m, 'v, 'x, 'w) CommandHandler = "('m, 'v, 'x, 'w) Handler"
type_synonym ('m, 'v, 'x, 'w) QueryHandler = "('m, 'v, 'x, 'w) Handler"

section \<open>The dispatcher: class \<open>Mediator\<close>\<close>

text \<open>The two registries are \<open>Map<string, ..>\<close> objects, empty at construction.\<close>

record ('m, 'v, 'x, 'w) Mediator =
  commandHandlers :: "string \<rightharpoonup> ('m, 'v, 'x, 'w) CommandHandler"
  queryHandlers :: "string \<rightharpoonup> ('m, 'v, 'x, 'w) QueryHandler"

definition new_Mediator :: "('m, 'v, 'x, 'w) Mediator" where
  "new_Mediator = \<lparr>commandHandlers = Map.empty, queryHandlers = Map.empty\<rparr>"

text \<open>\<open>this.commandHandlers.set(commandType, handler)\<close>; the method returns nothing.\<close>

definition registerCommandHandler ::
  "string \<Rightarrow> ('m, 'v, 'x, 'w) CommandHandler \<Rightarrow> ('m, 'v, 'x, 'w) Mediator \<Rightarrow> ('m, 'v, 'x, 'w) Mediator" where
  "registerCommandHandler commandType handler m =
     m\<lparr>commandHandlers := (commandHandlers m)(commandType \<mapsto> handler)\<rparr>"

text \<open>\<open>this.queryHandlers.set(queryType, handler)\<close>.\<close>

definition registerQueryHandler ::
  "string \<Rightarrow> ('m, 'v, 'x, 'w) QueryHandler \<Rightarrow> ('m, 'v, 'x, 'w) Mediator \<Rightarrow> ('m, 'v, 'x, 'w) Mediator" where
  "registerQueryHandler queryType handler m =
     m\<lparr>queryHandlers := (queryHandlers m)(queryType \<mapsto> handler)\<rparr>"

text \<open>
  \<open>async dispatch(message)\<close>. The result is the promise the caller awaits. A handler
  stored in a registry is an object, hence truthy, so \<open>!handler\<close> holds exactly when the
  key is absent. \<open>return handler.handle(..)\<close> in an async function makes the returned
  promise settle as the handler's does.
\<close>

definition dispatch ::
  "('m, 'v, 'x, 'w) Mediator \<Rightarrow> 'm Request_scheme \<Rightarrow> 'w \<Rightarrow> ('x, 'v Result) promise \<times> 'w" where
  "dispatch m msg w =
     (if kind msg = Defined ''command'' then
        (case commandHandlers m (constructor_name (constructor msg)) of
           None \<Rightarrow>
             (Fulfilled (failure (Defined (new_Error
                (''No handler for command: '' @ constructor_name (constructor msg))))), w)
         | Some handler \<Rightarrow> handle handler msg w)
      else if kind msg = Defined ''query'' then
        (case queryHandlers m (constructor_name (constructor msg)) of
           None \<Rightarrow>
             (Fulfilled (failure (Defined (new_Error
                (''No handler for query: '' @ constructor_name (constructor msg))))), w)
         | Some handler \<Rightarrow> handle handler msg w)
      else
        (Fulfilled (failure (Defined (new_Error
           ''Invalid message type: neither Command nor Query''))), w))"

section \<open>Concrete requests and handlers\<close>

text \<open>
  The objects of \<open>tests/mediator.test.ts\<close> and a few more of the same make, used
  below as concrete inputs. The world of these handlers is the number of lines written
  to the console.
  \<open>new CreateUserCommand({ name: "Jane" })\<close> is an instance of a class that extends
  \<open>BaseCommand\<close>.
\<close>

definition janeCommand :: "string Command" where
  "janeCommand = BaseCommand ''CreateUserCommand'' ''1'' ''0.5'' 1 ''Jane''"

text \<open>\<open>new GetUserQuery({ userId })\<close>, an instance of a class that extends \<open>BaseQuery\<close>.\<close>

definition getUserQuery :: "string \<Rightarrow> string Query" where
  "getUserQuery userId = BaseQuery ''GetUserQuery'' ''1'' ''0.5'' 1 userId"

text \<open>The same two requests written as object literals, with no class behind them.\<close>

definition janeLiteral :: "string Command" where
  "janeLiteral = janeCommand\<lparr>constructor := Object\<rparr>"

definition getUserLiteral :: "string \<Rightarrow> string Query" where
  "getUserLiteral userId = (getUserQuery userId)\<lparr>constructor := Object\<rparr>"

text \<open>\<open>{ kind: 'invalid', id: "bad", timestamp: new Date() }\<close>, cast to \<open>any\<close>.\<close>

definition invalidMessage :: "Request" where
  "invalidMessage =
     \<lparr>kind = Defined ''invalid'', ident = ''bad'', timestamp = 1, constructor = Object\<rparr>"

text \<open>\<open>CreateUserHandler\<close>: returns \<open>Result.success()\<close>.\<close>

definition CreateUserHandler :: "('m, 'v, 'x, nat) CommandHandler" where
  "CreateUserHandler = \<lparr>handle = (\<lambda>command w. (Fulfilled (success Undefined), w))\<rparr>"

text \<open>\<open>LogHandler\<close>: writes a line to the console, then returns \<open>Result.success()\<close>.\<close>

definition LogHandler :: "('m, 'v, 'x, nat) CommandHandler" where
  "LogHandler = \<lparr>handle = (\<lambda>command w. (Fulfilled (success Undefined), Suc w))\<rparr>"

text \<open>The failing handler: returns \<open>Result.failure(new Error("Handler boom"))\<close>.\<close>

definition failingHandler :: "('m, 'v, 'x, nat) CommandHandler" where
  "failingHandler =
     \<lparr>handle = (\<lambda>command w. (Fulfilled (failure (Defined (new_Error ''Handler boom''))), w))\<rparr>"

text \<open>A handler whose \<open>handle\<close> throws \<open>new Error("thrown")\<close> after writing a line.\<close>

definition throwingHandler :: "('m, 'v, js_Error, nat) CommandHandler" where
  "throwingHandler = \<lparr>handle = (\<lambda>command w. (Rejected (new_Error ''thrown''), Suc w))\<rparr>"

text \<open>
  \<open>GetUserHandler\<close>: the user named \<open>Test User\<close> for the id \<open>123\<close>, and
  \<open>Result.failure(new Error("User not found"))\<close> otherwise.
\<close>

definition GetUserHandler :: "((string, unit) Query_ext, string \<times> string, 'x, nat) QueryHandler" where
  "GetUserHandler =
     \<lparr>handle = (\<lambda>query w.
        if params query = ''123'' then (Fulfilled (success (Defined (''123'', ''Test User''))), w)
        else (Fulfilled (failure (Defined (new_Error ''User not found''))), w))\<rparr>"

text \<open>A transform that writes a line and throws; no call of it goes unnoticed.\<close>

definition loudTransform :: "'v js \<Rightarrow> (string, 'u js, nat) effect" where
  "loudTransform v w = (Inl ''transform called'', Suc w)"

section \<open>Properties of the outcome wrapper\<close>

lemma Result_map_success:
  "Result_map f (success v) = and_then (f v) (\<lambda>a. returns (success a))"
  by (simp add: Result_map_def isSuccess_def success_def)

lemma and_then_assoc:
  "and_then (and_then c k) h = and_then c (\<lambda>a. and_then (k a) h)"
  by (rule ext) (simp add: and_then_def split: prod.splits sum.splits)

lemma returns_and_then: "and_then (returns a) k = k a"
  by (rule ext) (simp add: and_then_def returns_def)

text \<open>
  C6. Mapping over a Success applies the transform to the held value and wraps what it
  returns in a new Success, and two maps in a row compose: for every value \<open>v\<close> and
  all transforms \<open>f\<close> and \<open>g\<close>, \<open>Result.success(v).map(f).map(g)\<close> is
  \<open>Result.success(g(f(v)))\<close>. The first two equations say so for transforms that may
  throw or have effects (the chain runs \<open>f\<close>, then \<open>g\<close> on what \<open>f\<close> returned, and
  wraps the last value); the third is the case of two pure transforms \<open>p\<close> and \<open>q\<close>.
\<close>

theorem map_success_composes:
  "Result_map f (success v) = and_then (f v) (\<lambda>a. returns (success a))
   \<and> and_then (Result_map f (success v)) (Result_map g)
       = and_then (f v) (\<lambda>a. and_then (g a) (\<lambda>b. returns (success b)))
   \<and> and_then (Result_map (\<lambda>a. returns (p a)) (success v)) (Result_map (\<lambda>b. returns (q b))) w
       = (Inr (success (q (p v))), w)"
proof (intro conjI)
  show "Result_map f (success v) = and_then (f v) (\<lambda>a. returns (success a))"
    by (rule Result_map_success)
  show "and_then (Result_map f (success v)) (Result_map g)
          = and_then (f v) (\<lambda>a. and_then (g a) (\<lambda>b. returns (success b)))"
    by (simp add: Result_map_success and_then_assoc returns_and_then)
  show "and_then (Result_map (\<lambda>a. returns (p a)) (success v)) (Result_map (\<lambda>b. returns (q b))) w
          = (Inr (success (q (p v))), w)"
    by (simp add: Result_map_success returns_and_then) (simp add: returns_def)
qed

text \<open>
  C3. \<open>map\<close> is a no-op on a Failure: for every outcome \<open>F\<close> that is not a success
  and every transform \<open>f\<close>, \<open>F.map(f)\<close> returns a Failure that carries the error
  descriptor of \<open>F\<close> itself, and \<open>f\<close> is never invoked: whatever \<open>f\<close> would do
  (return, throw, change the world), the call returns normally, the world is the one
  before the call, and the result does not depend on \<open>f\<close>.
\<close>

theorem map_failure_noop:
  fixes f :: "'v js \<Rightarrow> ('x, 'u js, 'w) effect"
  assumes "\<not> isSuccess F"
  shows "Result_map f F w = (Inr (failure (error F)), w)
         \<and> error (failure (error F) :: 'u Result) = error F
         \<and> \<not> isSuccess (failure (error F) :: 'u Result)"
  using assms by (simp add: Result_map_def returns_def failure_def isSuccess_def)

theorem map_failure_noop_witness:
  "\<not> isSuccess (failure (Defined (new_Error ''Fail'')) :: (string \<times> string) Result)
   \<and> Result_map (loudTransform :: (string \<times> string) js \<Rightarrow> (string, string js, nat) effect)
        (failure (Defined (new_Error ''Fail''))) 0
      = (Inr (failure (Defined (new_Error ''Fail''))), 0)
   \<and> error (failure (Defined (new_Error ''Fail'')) :: string Result) = Defined (new_Error ''Fail'')"
proof -
  have h: "\<not> isSuccess (failure (Defined (new_Error ''Fail'')) :: (string \<times> string) Result)"
    by (simp add: isSuccess_def failure_def)
  show ?thesis
    using h map_failure_noop [OF h, of "loudTransform :: (string \<times> string) js \<Rightarrow> (string, string js, nat) effect" 0]
    by (simp add: failure_def)
qed

text \<open>
  C7. On every Success outcome \<open>unwrap()\<close> returns the held value and does not throw;
  on every Failure outcome built with an \<open>Error\<close> object \<open>unwrap()\<close> throws, and what
  it throws is the stored error descriptor. Both are stated for the outcomes the two
  factories build and for any outcome \<open>r\<close> (\<open>F\<close>) in that state.
\<close>

theorem unwrap_returns_or_throws:
  "unwrap (success v :: 'v Result) = Inr v
   \<and> (isSuccess (r :: 'v Result) \<longrightarrow> unwrap r = Inr (value r))
   \<and> unwrap (failure (Defined e) :: 'v Result) = Inl e
   \<and> error (failure (Defined e) :: 'v Result) = Defined e
   \<and> (error (F :: 'v Result) = Defined e \<longrightarrow> unwrap F = Inl e)"
  by (simp add: unwrap_def success_def failure_def isSuccess_def)

theorem unwrap_returns_or_throws_witness:
  "isSuccess (success (Defined (''123'', ''Test User'')))
   \<and> unwrap (success (Defined (''123'', ''Test User''))) = Inr (Defined (''123'', ''Test User''))
   \<and> error (failure (Defined (new_Error ''User not found'')) :: (string \<times> string) Result)
        = Defined (new_Error ''User not found'')
   \<and> unwrap (failure (Defined (new_Error ''User not found'')) :: (string \<times> string) Result)
        = Inl (new_Error ''User not found'')"
  using unwrap_returns_or_throws [of "Defined (''123'', ''Test User'')"
          "success (Defined (''123'', ''Test User''))" "new_Error ''User not found''"
          "failure (Defined (new_Error ''User not found'')) :: (string \<times> string) Result"]
  by (simp add: isSuccess_def success_def failure_def)

text \<open>
  C8, as the code has it. \<open>Result.failure\<close> rejects nothing. Called with
  \<open>undefined\<close>, it builds the very outcome \<open>Result.success()\<close> builds: \<open>isSuccess()\<close>
  is true, \<open>getValue()\<close> is \<open>undefined\<close> and \<open>unwrap()\<close> returns \<open>undefined\<close>
  without throwing. Called with \<open>null\<close>, \<open>getValue()\<close> and \<open>unwrap()\<close> behave the
  same, but \<open>isSuccess()\<close> is false, since \<open>null === undefined\<close> is false.
\<close>

theorem failure_without_error:
  "failure Undefined = (success Undefined :: 'v Result)
   \<and> isSuccess (failure Undefined :: 'v Result)
   \<and> getValue (failure Undefined :: 'v Result) = Undefined
   \<and> unwrap (failure Undefined :: 'v Result) = Inr Undefined
   \<and> \<not> isSuccess (failure Null :: 'v Result)
   \<and> getValue (failure Null :: 'v Result) = Undefined
   \<and> unwrap (failure Null :: 'v Result) = Inr Undefined"
  by (simp add: isSuccess_def failure_def success_def getValue_def unwrap_def)

text \<open>
  C8, as stated, fails for \<open>null\<close>: the outcome \<open>Result.failure(null)\<close> does not
  report \<open>isSuccess()\<close> as true.
\<close>

theorem failure_null_counterexample:
  "\<not> (isSuccess (failure Null :: unit Result)
       \<and> getValue (failure Null :: unit Result) = Undefined
       \<and> unwrap (failure Null :: unit Result) = Inr Undefined)"
  by (simp add: isSuccess_def failure_def)

text \<open>
  C10. \<open>getValue()\<close> returns \<open>undefined\<close> on the void Success \<open>Result.success()\<close>
  and on every Failure \<open>Result.failure(e)\<close>, so it gives the same answer on both;
  on any outcome it is a plain field read and cannot throw. \<open>isSuccess()\<close> tells
  the two apart.
\<close>

theorem getValue_absent_on_void_and_failure:
  "getValue (success Undefined :: 'v Result) = Undefined
   \<and> getValue (failure e :: 'v Result) = Undefined
   \<and> getValue (success Undefined :: 'v Result) = getValue (failure e :: 'v Result)
   \<and> getValue r = value r
   \<and> isSuccess (success Undefined :: 'v Result)
   \<and> \<not> isSuccess (failure (Defined d) :: 'v Result)"
  by (simp add: isSuccess_def failure_def success_def getValue_def)

section \<open>Properties of the dispatcher\<close>

lemma message_new_Error: "message (new_Error s) = s"
  by (simp add: new_Error_def)

lemma failure_Defined_facts:
  "\<not> isSuccess (failure (Defined e)) \<and> error (failure (Defined e)) = Defined e"
  by (simp add: isSuccess_def failure_def)

text \<open>
  C1. When \<open>H\<close> is the handler registered for the type name \<open>T\<close> in the command
  registry, dispatching a command whose constructor name is \<open>T\<close> gives exactly what
  \<open>H.handle\<close> gives on that command: the same settled promise and the same effects,
  with nothing wrapped or changed. In particular a Failure that \<open>H\<close> returns comes back
  with the same error descriptor, and what \<open>H\<close> throws reaches the caller of
  \<open>dispatch\<close> as a rejection and is not turned into a Failure. The same holds for a
  query and the query registry.
\<close>

theorem dispatch_returns_handler_outcome:
  fixes m :: "('m, 'v, 'x, 'w) Mediator"
  assumes "constructor_name (constructor msg) = T"
    and "(kind msg = Defined ''command'' \<and> commandHandlers m T = Some H)
         \<or> (kind msg = Defined ''query'' \<and> queryHandlers m T = Some H)"
  shows "dispatch m msg w = handle H msg w
         \<and> (\<forall>e w'. handle H msg w = (Fulfilled (failure e), w')
               \<longrightarrow> dispatch m msg w = (Fulfilled (failure e), w'))
         \<and> (\<forall>x w'. handle H msg w = (Rejected x, w')
               \<longrightarrow> dispatch m msg w = (Rejected x, w'))"
proof -
  have "dispatch m msg w = handle H msg w"
    using assms by (auto simp: dispatch_def)
  then show ?thesis by simp
qed

theorem dispatch_returns_handler_outcome_witness:
  "dispatch (registerCommandHandler ''CreateUserCommand'' failingHandler
       (new_Mediator :: ((string, unit) Command_ext, unit, js_Error, nat) Mediator)) janeCommand 0
     = (Fulfilled (failure (Defined (new_Error ''Handler boom''))), 0)
   \<and> dispatch (registerCommandHandler ''CreateUserCommand'' throwingHandler
       (new_Mediator :: ((string, unit) Command_ext, unit, js_Error, nat) Mediator)) janeCommand 0
     = (Rejected (new_Error ''thrown''), 1)
   \<and> dispatch (registerQueryHandler ''GetUserQuery'' GetUserHandler
       (new_Mediator :: ((string, unit) Query_ext, string \<times> string, js_Error, nat) Mediator))
       (getUserQuery ''123'') 0
     = (Fulfilled (success (Defined (''123'', ''Test User''))), 0)"
proof -
  let ?c = "new_Mediator :: ((string, unit) Command_ext, unit, js_Error, nat) Mediator"
  let ?q = "new_Mediator :: ((string, unit) Query_ext, string \<times> string, js_Error, nat) Mediator"
  have n: "constructor_name (constructor janeCommand) = ''CreateUserCommand''"
    by (simp add: janeCommand_def BaseCommand_def)
  have k: "kind janeCommand = Defined ''command''"
    by (simp add: janeCommand_def BaseCommand_def)
  have a: "commandHandlers (registerCommandHandler ''CreateUserCommand'' failingHandler ?c)
             ''CreateUserCommand'' = Some failingHandler"
    by (simp add: registerCommandHandler_def)
  have b: "commandHandlers (registerCommandHandler ''CreateUserCommand'' throwingHandler ?c)
             ''CreateUserCommand'' = Some throwingHandler"
    by (simp add: registerCommandHandler_def)
  have n': "constructor_name (constructor (getUserQuery ''123'')) = ''GetUserQuery''"
    by (simp add: getUserQuery_def BaseQuery_def)
  have k': "kind (getUserQuery ''123'') = Defined ''query''"
    by (simp add: getUserQuery_def BaseQuery_def)
  have c: "queryHandlers (registerQueryHandler ''GetUserQuery'' GetUserHandler ?q)
             ''GetUserQuery'' = Some GetUserHandler"
    by (simp add: registerQueryHandler_def)
  have "dispatch (registerCommandHandler ''CreateUserCommand'' failingHandler ?c) janeCommand 0
          = handle failingHandler janeCommand 0"
    using dispatch_returns_handler_outcome [OF n, of _ failingHandler 0] k a by blast
  moreover have "dispatch (registerCommandHandler ''CreateUserCommand'' throwingHandler ?c) janeCommand 0
          = handle throwingHandler janeCommand 0"
    using dispatch_returns_handler_outcome [OF n, of _ throwingHandler 0] k b by blast
  moreover have "dispatch (registerQueryHandler ''GetUserQuery'' GetUserHandler ?q) (getUserQuery ''123'') 0
          = handle GetUserHandler (getUserQuery ''123'') 0"
    using dispatch_returns_handler_outcome [OF n', of _ GetUserHandler 0] k' c by blast
  ultimately show ?thesis
    by (simp add: failingHandler_def throwingHandler_def GetUserHandler_def getUserQuery_def BaseQuery_def)
qed

text \<open>
  C2. A request of kind \<open>command\<close> whose type name \<open>T\<close> has no entry in the command
  registry makes \<open>dispatch\<close> return, without throwing, a Failure whose error message
  is \<open>No handler for command: \<close> followed by \<open>T\<close>; a request of kind \<open>query\<close> whose
  type name has no entry in the query registry gives a Failure with the message
  \<open>No handler for query: \<close> followed by \<open>T\<close>.
\<close>

theorem dispatch_without_handler:
  fixes m :: "('m, 'v, 'x, 'w) Mediator"
  assumes "constructor_name (constructor msg) = T"
  shows "(kind msg = Defined ''command'' \<and> commandHandlers m T = None \<longrightarrow>
            (\<exists>r e. dispatch m msg w = (Fulfilled r, w) \<and> \<not> isSuccess r \<and> error r = Defined e
                   \<and> message e = ''No handler for command: '' @ T))
         \<and> (kind msg = Defined ''query'' \<and> queryHandlers m T = None \<longrightarrow>
            (\<exists>r e. dispatch m msg w = (Fulfilled r, w) \<and> \<not> isSuccess r \<and> error r = Defined e
                   \<and> message e = ''No handler for query: '' @ T))"
  using assms
  by (auto simp: dispatch_def message_new_Error failure_Defined_facts)

theorem dispatch_without_handler_witness:
  "(\<exists>r e. dispatch (new_Mediator :: ((string, unit) Command_ext, unit, js_Error, nat) Mediator)
              janeCommand 0 = (Fulfilled r, 0)
          \<and> \<not> isSuccess r \<and> error r = Defined e
          \<and> message e = ''No handler for command: CreateUserCommand'')
   \<and> (\<exists>r e. dispatch (new_Mediator :: ((string, unit) Query_ext, string \<times> string, js_Error, nat) Mediator)
              (getUserQuery ''123'') 0 = (Fulfilled r, 0)
          \<and> \<not> isSuccess r \<and> error r = Defined e
          \<and> message e = ''No handler for query: GetUserQuery'')"
proof -
  let ?c = "new_Mediator :: ((string, unit) Command_ext, unit, js_Error, nat) Mediator"
  let ?q = "new_Mediator :: ((string, unit) Query_ext, string \<times> string, js_Error, nat) Mediator"
  have n: "constructor_name (constructor janeCommand) = ''CreateUserCommand''"
    by (simp add: janeCommand_def BaseCommand_def)
  have k: "kind janeCommand = Defined ''command'' \<and> commandHandlers ?c ''CreateUserCommand'' = None"
    by (simp add: janeCommand_def BaseCommand_def new_Mediator_def)
  have n': "constructor_name (constructor (getUserQuery ''123'')) = ''GetUserQuery''"
    by (simp add: getUserQuery_def BaseQuery_def)
  have k': "kind (getUserQuery ''123'') = Defined ''query'' \<and> queryHandlers ?q ''GetUserQuery'' = None"
    by (simp add: getUserQuery_def BaseQuery_def new_Mediator_def)
  show ?thesis
    using dispatch_without_handler [OF n, of ?c 0] k dispatch_without_handler [OF n', of ?q 0] k'
    by simp
qed

text \<open>
  C4. A request whose \<open>kind\<close> is neither \<open>command\<close> nor \<open>query\<close> makes \<open>dispatch\<close>
  return, without throwing, a Failure whose error message is exactly
  \<open>Invalid message type: neither Command nor Query\<close>, whatever the registries hold.
\<close>

theorem dispatch_invalid_kind:
  fixes m :: "('m, 'v, 'x, 'w) Mediator"
  assumes "kind msg \<noteq> Defined ''command''" and "kind msg \<noteq> Defined ''query''"
  shows "\<exists>r e. dispatch m msg w = (Fulfilled r, w) \<and> \<not> isSuccess r \<and> error r = Defined e
               \<and> message e = ''Invalid message type: neither Command nor Query''"
  using assms
  by (auto simp: dispatch_def message_new_Error failure_Defined_facts)

theorem dispatch_invalid_kind_witness:
  "kind invalidMessage \<noteq> Defined ''command'' \<and> kind invalidMessage \<noteq> Defined ''query''
   \<and> (\<exists>r e. dispatch (registerCommandHandler ''Object'' throwingHandler
                 (new_Mediator :: (unit, unit, js_Error, nat) Mediator)) invalidMessage 0
               = (Fulfilled r, 0)
          \<and> \<not> isSuccess r \<and> error r = Defined e
          \<and> message e = ''Invalid message type: neither Command nor Query'')"
proof -
  have a: "kind invalidMessage \<noteq> Defined ''command''" by (simp add: invalidMessage_def)
  have b: "kind invalidMessage \<noteq> Defined ''query''" by (simp add: invalidMessage_def)
  show ?thesis
    using a b dispatch_invalid_kind [OF a b, of "registerCommandHandler ''Object'' throwingHandler
                 (new_Mediator :: (unit, unit, js_Error, nat) Mediator)" 0]
    by simp
qed

text \<open>
  C5. Registering \<open>H1\<close> and then \<open>H2\<close> for the same type name \<open>T\<close> leaves the
  dispatcher as if only \<open>H2\<close> had been registered: the registry holds \<open>H2\<close> under
  \<open>T\<close>, nothing of \<open>H1\<close> remains, and dispatching a request that resolves to \<open>T\<close>
  is a call of \<open>H2.handle\<close> alone. Registration is a total operation: it has no
  failure case. This holds for \<open>registerCommandHandler\<close> with commands and for
  \<open>registerQueryHandler\<close> with queries.
\<close>

theorem register_replaces_handler:
  fixes m :: "('m, 'v, 'x, 'w) Mediator"
  shows "registerCommandHandler T H2 (registerCommandHandler T H1 m) = registerCommandHandler T H2 m
     \<and> commandHandlers (registerCommandHandler T H2 (registerCommandHandler T H1 m)) T = Some H2
     \<and> (kind msg = Defined ''command'' \<and> constructor_name (constructor msg) = T \<longrightarrow>
          dispatch (registerCommandHandler T H2 (registerCommandHandler T H1 m)) msg w
            = handle H2 msg w)
     \<and> registerQueryHandler T H2 (registerQueryHandler T H1 m) = registerQueryHandler T H2 m
     \<and> queryHandlers (registerQueryHandler T H2 (registerQueryHandler T H1 m)) T = Some H2
     \<and> (kind msg = Defined ''query'' \<and> constructor_name (constructor msg) = T \<longrightarrow>
          dispatch (registerQueryHandler T H2 (registerQueryHandler T H1 m)) msg w
            = handle H2 msg w)"
  by (simp add: registerCommandHandler_def registerQueryHandler_def dispatch_def)

theorem register_replaces_handler_witness:
  "dispatch (registerCommandHandler ''CreateUserCommand'' failingHandler
        (registerCommandHandler ''CreateUserCommand'' LogHandler
           (new_Mediator :: ((string, unit) Command_ext, unit, js_Error, nat) Mediator))) janeCommand 0
     = (Fulfilled (failure (Defined (new_Error ''Handler boom''))), 0)
   \<and> dispatch (registerQueryHandler ''GetUserQuery'' GetUserHandler
        (registerQueryHandler ''GetUserQuery'' LogHandler
           (new_Mediator :: ((string, unit) Query_ext, string \<times> string, js_Error, nat) Mediator)))
        (getUserQuery ''999'') 0
     = (Fulfilled (failure (Defined (new_Error ''User not found''))), 0)"
proof -
  let ?c = "new_Mediator :: ((string, unit) Command_ext, unit, js_Error, nat) Mediator"
  let ?q = "new_Mediator :: ((string, unit) Query_ext, string \<times> string, js_Error, nat) Mediator"
  have k: "kind janeCommand = Defined ''command''
           \<and> constructor_name (constructor janeCommand) = ''CreateUserCommand''"
    by (simp add: janeCommand_def BaseCommand_def)
  have k': "kind (getUserQuery ''999'') = Defined ''query''
           \<and> constructor_name (constructor (getUserQuery ''999'')) = ''GetUserQuery''"
    by (simp add: getUserQuery_def BaseQuery_def)
  have "dispatch (registerCommandHandler ''CreateUserCommand'' failingHandler
          (registerCommandHandler ''CreateUserCommand'' LogHandler ?c)) janeCommand 0
        = handle failingHandler janeCommand 0"
    using register_replaces_handler
            [of "''CreateUserCommand''" failingHandler LogHandler ?c janeCommand 0] k
    by blast
  moreover have "dispatch (registerQueryHandler ''GetUserQuery'' GetUserHandler
          (registerQueryHandler ''GetUserQuery'' LogHandler ?q)) (getUserQuery ''999'') 0
        = handle GetUserHandler (getUserQuery ''999'') 0"
    using register_replaces_handler
            [of "''GetUserQuery''" GetUserHandler LogHandler ?q "getUserQuery ''999''" 0] k'
    by blast
  ultimately show ?thesis
    by (simp add: failingHandler_def GetUserHandler_def getUserQuery_def BaseQuery_def)
qed

text \<open>
  C9. The registry key \<open>dispatch\<close> consults is the constructor name of the request.
  For every request of kind \<open>command\<close>, \<open>dispatch\<close> is the lookup of
  \<open>message.constructor.name\<close> in the command registry: the handler found there is
  called, and when none is found the Failure names that key; likewise for every query
  and the query registry. Nothing else in the registries matters: two dispatchers that
  agree on the entry under that name answer the request alike. The name of a class
  instance is the name of its class, so an instance of the class \<open>n\<close> reaches the
  handler registered under \<open>n\<close>. A request written as an object literal has the
  constructor \<open>Object\<close>, so every command literal is answered by the entry of the
  command registry under the one key \<open>Object\<close> and every query literal by the entry of
  the query registry under that key. A handler registered under a class name, that is,
  under any name other than \<open>Object\<close>, is never matched by a literal: registering it
  does not change what \<open>dispatch\<close> answers.
\<close>

theorem dispatch_key_is_constructor_name:
  fixes m m' :: "('m, 'v, 'x, 'w) Mediator"
  shows "(kind msg = Defined ''command'' \<longrightarrow>
          dispatch m msg w =
            (case commandHandlers m (constructor_name (constructor msg)) of
               None \<Rightarrow> (Fulfilled (failure (Defined (new_Error
                   (''No handler for command: '' @ constructor_name (constructor msg))))), w)
             | Some h \<Rightarrow> handle h msg w))
     \<and> (kind msg = Defined ''query'' \<longrightarrow>
          dispatch m msg w =
            (case queryHandlers m (constructor_name (constructor msg)) of
               None \<Rightarrow> (Fulfilled (failure (Defined (new_Error
                   (''No handler for query: '' @ constructor_name (constructor msg))))), w)
             | Some h \<Rightarrow> handle h msg w))
     \<and> constructor_name (Class n) = n
     \<and> constructor_name Object = ''Object''
     \<and> (kind msg = Defined ''command''
            \<and> commandHandlers m (constructor_name (constructor msg))
                = commandHandlers m' (constructor_name (constructor msg))
          \<longrightarrow> dispatch m msg w = dispatch m' msg w)
     \<and> (kind msg = Defined ''query''
            \<and> queryHandlers m (constructor_name (constructor msg))
                = queryHandlers m' (constructor_name (constructor msg))
          \<longrightarrow> dispatch m msg w = dispatch m' msg w)
     \<and> (constructor msg = Class n \<and> kind msg = Defined ''command'' \<longrightarrow>
          dispatch (registerCommandHandler n H m) msg w = handle H msg w)
     \<and> (constructor msg = Class n \<and> kind msg = Defined ''query'' \<longrightarrow>
          dispatch (registerQueryHandler n H m) msg w = handle H msg w)
     \<and> (constructor msg = Object \<and> kind msg = Defined ''command'' \<longrightarrow>
          dispatch (registerCommandHandler ''Object'' H m) msg w = handle H msg w
          \<and> dispatch m msg w =
            (case commandHandlers m ''Object'' of
               None \<Rightarrow> (Fulfilled (failure (Defined (new_Error ''No handler for command: Object''))), w)
             | Some h \<Rightarrow> handle h msg w))
     \<and> (constructor msg = Object \<and> kind msg = Defined ''query'' \<longrightarrow>
          dispatch (registerQueryHandler ''Object'' H m) msg w = handle H msg w
          \<and> dispatch m msg w =
            (case queryHandlers m ''Object'' of
               None \<Rightarrow> (Fulfilled (failure (Defined (new_Error ''No handler for query: Object''))), w)
             | Some h \<Rightarrow> handle h msg w))
     \<and> (constructor msg = Object \<and> T \<noteq> ''Object'' \<longrightarrow>
          dispatch (registerCommandHandler T H m) msg w = dispatch m msg w
          \<and> dispatch (registerQueryHandler T H m) msg w = dispatch m msg w)"
  by (auto simp: registerCommandHandler_def registerQueryHandler_def dispatch_def
           split: option.splits)

theorem dispatch_key_is_constructor_name_witness:
  "dispatch (registerCommandHandler ''CreateUserCommand'' LogHandler
        (new_Mediator :: ((string, unit) Command_ext, unit, js_Error, nat) Mediator)) janeCommand 0
     = (Fulfilled (success Undefined), 1)
   \<and> dispatch (registerCommandHandler ''CreateUserCommand'' LogHandler
        (new_Mediator :: ((string, unit) Command_ext, unit, js_Error, nat) Mediator)) janeLiteral 0
     = (Fulfilled (failure (Defined (new_Error ''No handler for command: Object''))), 0)
   \<and> dispatch (registerCommandHandler ''Object'' LogHandler
        (new_Mediator :: ((string, unit) Command_ext, unit, js_Error, nat) Mediator)) janeLiteral 0
     = (Fulfilled (success Undefined), 1)
   \<and> dispatch (registerCommandHandler ''Object'' LogHandler
        (new_Mediator :: ((string, unit) Command_ext, unit, js_Error, nat) Mediator)) janeCommand 0
     = (Fulfilled (failure (Defined (new_Error ''No handler for command: CreateUserCommand''))), 0)
   \<and> dispatch (registerQueryHandler ''GetUserQuery'' GetUserHandler
        (new_Mediator :: ((string, unit) Query_ext, string \<times> string, js_Error, nat) Mediator))
        (getUserQuery ''123'') 0
     = (Fulfilled (success (Defined (''123'', ''Test User''))), 0)
   \<and> dispatch (registerQueryHandler ''GetUserQuery'' GetUserHandler
        (new_Mediator :: ((string, unit) Query_ext, string \<times> string, js_Error, nat) Mediator))
        (getUserLiteral ''123'') 0
     = (Fulfilled (failure (Defined (new_Error ''No handler for query: Object''))), 0)"
proof -
  let ?c = "new_Mediator :: ((string, unit) Command_ext, unit, js_Error, nat) Mediator"
  let ?q = "new_Mediator :: ((string, unit) Query_ext, string \<times> string, js_Error, nat) Mediator"
  let ?L = "LogHandler :: ((string, unit) Command_ext, unit, js_Error, nat) CommandHandler"
  let ?G = "GetUserHandler :: ((string, unit) Query_ext, string \<times> string, js_Error, nat) QueryHandler"
  have i: "constructor janeCommand = Class ''CreateUserCommand''
           \<and> kind janeCommand = Defined ''command''"
    by (simp add: janeCommand_def BaseCommand_def)
  have l: "constructor janeLiteral = Object \<and> kind janeLiteral = Defined ''command''"
    by (simp add: janeLiteral_def janeCommand_def BaseCommand_def)
  have i': "constructor (getUserQuery ''123'') = Class ''GetUserQuery''
            \<and> kind (getUserQuery ''123'') = Defined ''query''"
    by (simp add: getUserQuery_def BaseQuery_def)
  have l': "constructor (getUserLiteral ''123'') = Object
            \<and> kind (getUserLiteral ''123'') = Defined ''query''"
    by (simp add: getUserLiteral_def getUserQuery_def BaseQuery_def)
  have d: "''CreateUserCommand'' \<noteq> ''Object'' \<and> ''GetUserQuery'' \<noteq> ''Object''"
    by simp
  have e: "commandHandlers ?c ''Object'' = None \<and> queryHandlers ?q ''Object'' = None"
    by (simp add: new_Mediator_def)
  have f: "commandHandlers (registerCommandHandler ''Object'' ?L ?c) ''CreateUserCommand'' = None"
    by (simp add: new_Mediator_def registerCommandHandler_def)
  note ci = dispatch_key_is_constructor_name
             [of janeCommand ?c 0 "''CreateUserCommand''" ?c ?L "''CreateUserCommand''"]
  note co = dispatch_key_is_constructor_name
             [of janeCommand "registerCommandHandler ''Object'' ?L ?c" 0 "''CreateUserCommand''"
                 ?c ?L "''CreateUserCommand''"]
  note cl = dispatch_key_is_constructor_name
             [of janeLiteral ?c 0 "''CreateUserCommand''" ?c ?L "''CreateUserCommand''"]
  note qi = dispatch_key_is_constructor_name
             [of "getUserQuery ''123''" ?q 0 "''GetUserQuery''" ?q ?G "''GetUserQuery''"]
  note ql = dispatch_key_is_constructor_name
             [of "getUserLiteral ''123''" ?q 0 "''GetUserQuery''" ?q ?G "''GetUserQuery''"]
  have 1: "dispatch (registerCommandHandler ''CreateUserCommand'' ?L ?c) janeCommand 0
          = handle ?L janeCommand 0"
    using ci i by blast
  have "dispatch (registerCommandHandler ''CreateUserCommand'' ?L ?c) janeLiteral 0
          = dispatch ?c janeLiteral 0"
    using cl l d by blast
  moreover have "dispatch ?c janeLiteral 0
          = (Fulfilled (failure (Defined (new_Error ''No handler for command: Object''))), 0)"
    using cl l e by simp
  ultimately have 2: "dispatch (registerCommandHandler ''CreateUserCommand'' ?L ?c) janeLiteral 0
          = (Fulfilled (failure (Defined (new_Error ''No handler for command: Object''))), 0)"
    by simp
  have 3: "dispatch (registerCommandHandler ''Object'' ?L ?c) janeLiteral 0
          = handle ?L janeLiteral 0"
    using cl l by blast
  have 4: "dispatch (registerCommandHandler ''Object'' ?L ?c) janeCommand 0
          = (Fulfilled (failure (Defined (new_Error ''No handler for command: CreateUserCommand''))), 0)"
    using co i f by simp
  have 5: "dispatch (registerQueryHandler ''GetUserQuery'' ?G ?q) (getUserQuery ''123'') 0
          = handle ?G (getUserQuery ''123'') 0"
    using qi i' by blast
  have "dispatch (registerQueryHandler ''GetUserQuery'' ?G ?q) (getUserLiteral ''123'') 0
          = dispatch ?q (getUserLiteral ''123'') 0"
    using ql l' d by blast
  moreover have "dispatch ?q (getUserLiteral ''123'') 0
          = (Fulfilled (failure (Defined (new_Error ''No handler for query: Object''))), 0)"
    using ql l' e by simp
  ultimately have 6: "dispatch (registerQueryHandler ''GetUserQuery'' ?G ?q) (getUserLiteral ''123'') 0
          = (Fulfilled (failure (Defined (new_Error ''No handler for query: Object''))), 0)"
    by simp
  show ?thesis
    unfolding 1 2 3 4 5 6
    by (simp add: LogHandler_def GetUserHandler_def getUserQuery_def BaseQuery_def)
qed

end
